theory Spec2Isabelle
  imports Main
begin

section \<open>Data model of the player package\<close>

text \<open>
  The playback engine is the Go type \<open>Player\<close> with its methods. The structs become
  records, the two enumerations become datatypes, a nil-able pointer becomes an
  \<open>option\<close>, the slice \<open>SongQueue\<close> becomes a list and the buffered channel
  \<open>SkipInterrupt\<close> becomes the list of the values waiting in its buffer.
\<close>

datatype SongSource = SourceYouTube | SourceStream

datatype PlaybackStatus = StatusResting | StatusPlaying | StatusPaused | StatusError

record Thumbnail =
  URL :: string
  Width :: nat
  Height :: nat

text \<open>\<open>time.Duration\<close> is a signed 64-bit count of nanoseconds, here an \<open>int\<close>.\<close>

record Song =
  Title :: string
  UserURL :: string
  DownloadURL :: string
  Thumbnail :: Thumbnail
  Duration :: int
  ID :: string
  Source :: SongSource

text \<open>
  What the engine reads of the three library objects it holds: of the voice
  connection its guild and its \<open>Ready\<close> flag, of the encode session the path and the
  \<open>StartTime\<close> option it was opened with, of the streaming session its paused flag.
\<close>

record discordgo_VoiceConnection =
  GuildID :: string
  Ready :: bool

record dca_EncodeSession =
  Path :: string
  StartTime :: int

record dca_StreamingSession =
  IsPaused :: bool

text \<open>
  Calls that leave the engine (voice transport, encoder, history store, error log) are
  recorded, in order, in the field \<open>Trace\<close>, which the Go struct does not have.
\<close>

datatype effect =
    Speaking bool
  | Disconnect
  | EncodeFile string int
  | EncoderStop
  | Cleanup
  | NewStream
  | SetPaused bool
  | AddTrackToHistory string string
  | AddPlaybackCountStats string string
  | LogError
  | LogWarn
  | LogFatal

record Player =
  VoiceConnection :: "discordgo_VoiceConnection option"
  StreamingSession :: "dca_StreamingSession option"
  EncodingSession :: "dca_EncodeSession option"
  SongQueue :: "Song list"
  CurrentSong :: "Song option"
  CurrentStatus :: PlaybackStatus
  SkipInterrupt :: "bool list"
  Trace :: "effect list"

text \<open>
  A method either returns, or does not: a nil pointer is dereferenced, a wait never
  ends, or the environment script of the model is used up. The state at that moment is
  kept. \<open>slog.Fatal\<close> and \<open>slog.Fatalf\<close> write a log entry and return, as the
  calls of \<open>os.Exit\<close> that follow them in \<open>cmd/main.go\<close> expect; the method goes on
  with its next statement.
\<close>

datatype halt = NilDereference | BlockedForever | ScriptExhausted

datatype outcome = Return Player | Halt halt Player

definition emit :: "effect list \<Rightarrow> Player \<Rightarrow> Player" where
  "emit es p = p\<lparr>Trace := Trace p @ es\<rparr>"

section \<open>Construction and queue operations\<close>

definition NewPlayer :: Player where
  "NewPlayer = \<lparr>VoiceConnection = None, StreamingSession = None, EncodingSession = None,
     SongQueue = [], CurrentSong = None, CurrentStatus = StatusResting,
     SkipInterrupt = [], Trace = []\<rparr>"

text \<open>
  \<open>Enqueue\<close> reads \<open>song.Title\<close> for its log line before anything else, so a nil
  song never enters the queue; the argument is a song.
\<close>

definition Enqueue :: "Song \<Rightarrow> Player \<Rightarrow> Player" where
  "Enqueue song p = p\<lparr>SongQueue := SongQueue p @ [song]\<rparr>"

definition Dequeue :: "Player \<Rightarrow> Song option \<times> Player" where
  "Dequeue p =
     (case SongQueue p of
        [] \<Rightarrow> (None, p)
      | firstSong # rest \<Rightarrow> (Some firstSong, p\<lparr>SongQueue := rest\<rparr>))"

definition ClearQueue :: "Player \<Rightarrow> Player" where
  "ClearQueue p = (if length (SongQueue p) = 0 then p else p\<lparr>SongQueue := []\<rparr>)"

definition SetVoiceConnection :: "discordgo_VoiceConnection option \<Rightarrow> Player \<Rightarrow> Player" where
  "SetVoiceConnection voiceConnection p = p\<lparr>VoiceConnection := voiceConnection\<rparr>"

definition SetCurrentStatus :: "PlaybackStatus \<Rightarrow> Player \<Rightarrow> Player" where
  "SetCurrentStatus status p = p\<lparr>CurrentStatus := status\<rparr>"

section \<open>Stop\<close>

text \<open>
  The two transport calls of \<open>Stop\<close> can fail; whether they do is given by
  \<open>speakingErr\<close> and \<open>disconnectErr\<close>. A failure of \<open>Speaking(false)\<close> is logged
  with \<open>slog.Errorf\<close>, a failure of \<open>Disconnect()\<close> with \<open>slog.Fatal\<close>, and in
  both cases \<open>Stop\<close> goes on. Every pointer it uses is checked for nil first. The
  encode session is stopped and cleaned up; the field itself is not assigned.
\<close>

definition Stop :: "bool \<Rightarrow> bool \<Rightarrow> Player \<Rightarrow> outcome" where
  "Stop speakingErr disconnectErr p =
     (let p1 = ClearQueue p;
          p5 = (if VoiceConnection p1 \<noteq> None then
                  (let p2 = emit [Speaking False] p1;
                       p3 = (if speakingErr then emit [LogError] p2 else p2);
                       p4 = emit [Disconnect] p3;
                       p4' = (if disconnectErr then emit [LogFatal] p4 else p4)
                   in SetVoiceConnection None p4')
                else p1);
          p6 = (if StreamingSession p5 \<noteq> None then p5\<lparr>StreamingSession := None\<rparr> else p5);
          p7 = (if EncodingSession p6 \<noteq> None then emit [EncoderStop, Cleanup] p6 else p6);
          p8 = (if CurrentSong p7 \<noteq> None then p7\<lparr>CurrentSong := None\<rparr> else p7)
      in Return (p8\<lparr>CurrentStatus := StatusResting\<rparr>))"

section \<open>Pause\<close>

definition Pause :: "Player \<Rightarrow> Player" where
  "Pause p =
     (if VoiceConnection p = None then p
      else case StreamingSession p of
        None \<Rightarrow> p
      | Some ss \<Rightarrow>
          if CurrentStatus p = StatusPlaying
          then emit [SetPaused True]
                 (p\<lparr>StreamingSession := Some (ss\<lparr>IsPaused := True\<rparr>),
                    CurrentStatus := StatusPaused\<rparr>)
          else p)"

section \<open>The environment of one Play invocation\<close>

text \<open>
  \<open>Play\<close> blocks in its \<open>select\<close> for as long as the song lasts. The methods other
  goroutines call on the same player during that wait are listed, in order, in the
  environment; only methods that return at once and start no playback of their own are
  listed.
\<close>

datatype concurrent_call =
    CallPause
  | CallEnqueue Song
  | CallClearQueue
  | CallSetCurrentStatus PlaybackStatus
  | CallSetVoiceConnection "discordgo_VoiceConnection option"

fun concurrently :: "concurrent_call \<Rightarrow> Player \<Rightarrow> Player" where
  "concurrently CallPause p = Pause p"
| "concurrently (CallEnqueue song) p = Enqueue song p"
| "concurrently CallClearQueue p = ClearQueue p"
| "concurrently (CallSetCurrentStatus status) p = SetCurrentStatus status p"
| "concurrently (CallSetVoiceConnection vc) p = SetVoiceConnection vc p"

datatype go_error = ErrNil | ErrEOF | ErrOther

text \<open>
  Everything one invocation of \<open>Play\<close> gets from outside, once it has a song:
  whether \<open>config.NewConfig\<close> fails and whether the configuration it then returns is
  nil, whether \<open>dca.EncodeFile\<close> and \<open>Speaking(true)\<close>
  fail, what other goroutines do during the wait, whether the stream's \<open>done\<close> channel
  delivers and which ready case the \<open>select\<close> takes when the skip signal is ready as
  well, the figures read by \<open>metrics\<close> (elapsed encode duration, playback position,
  and the duration parsed from the \<open>duration\<close> parameter of the download URL, each in
  nanoseconds, the last one zero when it does not parse), the result of the history
  call on line 419, and the results of the transport calls of a \<open>Stop\<close> made from
  this invocation.
\<close>

record PlayEnv =
  env_config_err :: bool
  env_config_nil :: bool
  env_encode_err :: bool
  env_speaking_err :: bool
  env_meanwhile :: "concurrent_call list"
  env_done :: bool
  env_select_done :: bool
  env_encoded :: int
  env_position :: int
  env_url_duration :: int
  env_count_err :: go_error
  env_stop_speaking_err :: bool
  env_disconnect_err :: bool

section \<open>Playback metrics\<close>

definition Second :: int where
  "Second = 1000000000"

text \<open>Arithmetic on \<open>time.Duration\<close> wraps around in 64 bits, two's complement.\<close>

definition int64 :: "int \<Rightarrow> int" where
  "int64 x = (x + 2 ^ 63) mod 2 ^ 64 - 2 ^ 63"

definition metrics ::
  "dca_EncodeSession \<Rightarrow> dca_StreamingSession \<Rightarrow> Song \<Rightarrow> PlayEnv \<Rightarrow> int \<times> int" where
  "metrics encoding streaming song e =
     (let encodingDuration = env_encoded e;
          encodingStartTime = int64 (StartTime encoding * Second);
          streamingPosition = env_position e;
          delay = int64 (encodingDuration - streamingPosition);
          duration = env_url_duration e;
          songDuration = int64 (duration * Second);
          songPosition = int64 (int64 (encodingStartTime + streamingPosition) + delay)
      in (songDuration, songPosition))"

text \<open>
  \<open>int(d.Seconds())\<close>: the whole seconds of a duration, truncated towards zero. The
  source goes through \<open>float64\<close>, which is not modelled; for the length of a song it
  gives the same whole seconds.
\<close>

definition whole_seconds :: "int \<Rightarrow> int" where
  "whole_seconds d = (if 0 \<le> d then d div Second else - ((- d) div Second))"

section \<open>Play\<close>

text \<open>Lines 292 to 299: without an explicit song the next one is taken from the queue.\<close>

definition Play_load :: "Song option \<Rightarrow> Player \<Rightarrow> Player + Player" where
  "Play_load song p =
     (case song of
        None \<Rightarrow>
          (let (next_song, p1) = Dequeue p;
               p2 = p1\<lparr>CurrentSong := next_song\<rparr>
           in if next_song = None then Inl (p2\<lparr>CurrentStatus := StatusResting\<rparr>) else Inr p2)
      | Some s \<Rightarrow> Inr p)"

text \<open>
  A deferred call runs when the function returns and while a panic unwinds; it does not
  run when the goroutine never leaves the function.
\<close>

fun deferred :: "effect list \<Rightarrow> outcome \<Rightarrow> outcome" where
  "deferred es (Return q) = Return (emit es q)"
| "deferred es (Halt NilDereference q) = Halt NilDereference (emit es q)"
| "deferred es (Halt h q) = Halt h q"

text \<open>The case \<open><-p.SkipInterrupt\<close> of the \<open>select\<close>, lines 454 to 462.\<close>

definition Play_skip :: "Player \<Rightarrow> outcome" where
  "Play_skip p =
     (let p1 = p\<lparr>SkipInterrupt := tl (SkipInterrupt p)\<rparr>;
          p2 = (if VoiceConnection p1 \<noteq> None then emit [Speaking False] p1 else p1)
      in case EncodingSession p2 of
           None \<Rightarrow> Halt NilDereference p2
         | Some enc \<Rightarrow> Return (emit [Cleanup] p2))"

text \<open>
  \<open>Play\<close> is the method up to its \<open>select\<close>; \<open>Play_done\<close> is the case \<open><-done\<close>
  up to line 423, and \<open>Play_finished\<close> is the rest of that case, lines 425 to 452,
  with the value the variable \<open>err\<close> has there. The value received from \<open>done\<close> is
  dropped by the source, so \<open>err\<close> is the result of the last call assigned to it.
  Each invocation that gets a song takes one environment from the script.

  A failure of \<open>config.NewConfig\<close> is logged with \<open>slog.Fatalf\<close>, and line 311
  then reads a field of the configuration, which panics when the configuration is nil.
  When \<open>dca.EncodeFile\<close> fails the session it returns is nil, and the assignment on
  line 330 stores it. The loop of lines 337 to 339 ends only when another goroutine has
  made the connection ready; the model takes the connection as it is when the loop is
  reached, and the goroutine stays in the loop otherwise. The ticker goroutine of lines
  359 to 380, which reports playback time every two seconds, touches no field of the
  player and is left out.
\<close>

fun Play :: "int \<Rightarrow> Song option \<Rightarrow> Player \<Rightarrow> PlayEnv list \<Rightarrow> outcome"
  and Play_done :: "Player \<Rightarrow> PlayEnv \<Rightarrow> PlayEnv list \<Rightarrow> outcome"
  and Play_finished :: "go_error \<Rightarrow> Player \<Rightarrow> PlayEnv \<Rightarrow> PlayEnv list \<Rightarrow> outcome"
where
  "Play startAt song p [] =
     (case Play_load song p of
        Inl q \<Rightarrow> Return q
      | Inr q \<Rightarrow> Halt ScriptExhausted q)"
| "Play startAt song p (e # es) =
     (case Play_load song p of
        Inl q \<Rightarrow> Return q
      | Inr p1 \<Rightarrow>
         (case CurrentSong p1 of
            None \<Rightarrow> Halt NilDereference p1
          | Some cur \<Rightarrow>
             let p1' = (if env_config_err e then emit [LogFatal] p1 else p1) in
             if env_config_err e \<and> env_config_nil e then Halt NilDereference p1'
             else
               let p2 = emit [EncodeFile (DownloadURL cur) startAt] p1' in
               if env_encode_err e
               then Return (emit [LogError] (p2\<lparr>EncodingSession := None\<rparr>))
               else
                 let p3 = p2\<lparr>EncodingSession :=
                            Some \<lparr>Path = DownloadURL cur, StartTime = startAt\<rparr>\<rparr> in
                 (case VoiceConnection p3 of
                    None \<Rightarrow> Halt BlockedForever p3
                  | Some vc \<Rightarrow>
                     if \<not> Ready vc then Halt BlockedForever p3
                     else deferred [Cleanup]
                       (let p4 = emit [Speaking True] p3 in
                        if env_speaking_err e
                        then Return (emit [LogError, Speaking False] p4)
                        else
                          let p5 = emit [NewStream]
                                     (p4\<lparr>StreamingSession := Some \<lparr>IsPaused = False\<rparr>\<rparr>);
                              p6 = emit [AddTrackToHistory (GuildID vc) (ID cur)]
                                     (p5\<lparr>CurrentStatus := StatusPlaying\<rparr>);
                              p7 = fold concurrently (env_meanwhile e) p6
                          in if env_done e \<and> (SkipInterrupt p7 = [] \<or> env_select_done e)
                             then Play_done p7 e es
                             else if SkipInterrupt p7 \<noteq> [] then Play_skip p7
                             else Halt BlockedForever p7))))"
| "Play_done p e es =
     (case VoiceConnection p of
        None \<Rightarrow> Play_finished ErrNil p e es
      | Some vc \<Rightarrow>
         (case StreamingSession p of
            None \<Rightarrow> Play_finished ErrNil p e es
          | Some ss \<Rightarrow>
             (case CurrentSong p of
                None \<Rightarrow> Play_finished ErrNil p e es
              | Some cur \<Rightarrow>
                 let counted = emit ([AddPlaybackCountStats (GuildID vc) (ID cur)] @
                                 (if env_count_err e \<noteq> ErrNil then [LogWarn] else [])) p
                 in
                 if Source cur \<noteq> SourceStream then
                   (case EncodingSession p of
                      None \<Rightarrow> Halt NilDereference p
                    | Some enc \<Rightarrow>
                       (let (songDuration, songPosition) = metrics enc ss cur e in
                        if CurrentStatus p = StatusPlaying \<and> 0 < env_encoded e
                           \<and> 0 < songPosition \<and> songPosition < songDuration
                        then Play (whole_seconds songPosition) (CurrentSong p)
                               (emit [LogWarn, Cleanup, Speaking False] p) es
                        else Play_finished (env_count_err e) counted e es))
                 else if CurrentStatus p = StatusPlaying then
                   (case EncodingSession p of
                      None \<Rightarrow> Halt NilDereference (emit [LogWarn] p)
                    | Some enc \<Rightarrow>
                       Play 0 (CurrentSong p)
                         (emit [LogWarn, Cleanup, Speaking False] p) es)
                 else Play_finished (env_count_err e) counted e es)))"
| "Play_finished err p e es =
     (if err \<noteq> ErrNil \<and> err \<noteq> ErrEOF then
        (let p1 = emit [LogWarn] p;
             p2 = (if VoiceConnection p1 \<noteq> None then emit [Speaking False] p1 else p1);
             p3 = p2\<lparr>CurrentStatus := StatusResting\<rparr>
         in case EncodingSession p3 of
              None \<Rightarrow> Halt NilDereference p3
            | Some enc \<Rightarrow> Return (emit [Cleanup] p3))
      else if length (SongQueue p) = 0
        then Stop (env_stop_speaking_err e) (env_disconnect_err e) p
        else Play 0 None p es)"

section \<open>Skip and Unpause\<close>

text \<open>The assignment a caller makes to \<open>CurrentStatus\<close> once its \<open>Play\<close> has returned.\<close>

fun then_playing :: "outcome \<Rightarrow> outcome" where
  "then_playing (Return q) = Return (q\<lparr>CurrentStatus := StatusPlaying\<rparr>)"
| "then_playing (Halt h q) = Halt h q"

text \<open>
  The send \<open>p.SkipInterrupt <- true\<close> is always guarded by
  \<open>len(p.SkipInterrupt) == 0\<close>, so it never blocks on the one-slot buffer.
\<close>

definition send_skip :: "Player \<Rightarrow> Player" where
  "send_skip p = p\<lparr>SkipInterrupt := SkipInterrupt p @ [True]\<rparr>"

text \<open>The case \<open>StatusPlaying, StatusPaused\<close> of the switch in \<open>Skip\<close>.\<close>

definition Skip_active :: "Player \<Rightarrow> PlayEnv list \<Rightarrow> outcome" where
  "Skip_active p script =
     (case VoiceConnection p of
        None \<Rightarrow> Return p
      | Some vc \<Rightarrow>
         (case CurrentSong p of
            None \<Rightarrow> Return p
          | Some cur \<Rightarrow>
             let p1 = p\<lparr>CurrentStatus := StatusResting\<rparr> in
             if length (SkipInterrupt p1) = 0
             then Play 0 None
                    (send_skip (emit [AddPlaybackCountStats (GuildID vc) (ID cur)] p1)) script
             else Return p1))"

definition Skip :: "Player \<Rightarrow> PlayEnv list \<Rightarrow> outcome" where
  "Skip p script =
     (case CurrentStatus p of
        StatusPlaying \<Rightarrow> Skip_active p script
      | StatusPaused \<Rightarrow> Skip_active p script
      | StatusResting \<Rightarrow>
         (case CurrentSong p of
            Some cur \<Rightarrow>
              if length (SkipInterrupt p) = 0 then
                (case VoiceConnection p of
                   None \<Rightarrow> Halt NilDereference p
                 | Some vc \<Rightarrow>
                    then_playing
                      (Play 0 None
                         (send_skip (emit [AddPlaybackCountStats (GuildID vc) (ID cur)] p))
                         script))
              else Return p
          | None \<Rightarrow>
              if length (SkipInterrupt p) = 0
              then then_playing (Play 0 None (send_skip p) script)
              else Return p)
      | StatusError \<Rightarrow> Return p)"

definition Unpause :: "Player \<Rightarrow> PlayEnv list \<Rightarrow> outcome" where
  "Unpause p script =
     (if VoiceConnection p = None then Return p
      else
        let p1 = (case StreamingSession p of
                    None \<Rightarrow> p
                  | Some ss \<Rightarrow>
                      if CurrentStatus p = StatusPaused
                      then emit [SetPaused False]
                             (p\<lparr>StreamingSession := Some (ss\<lparr>IsPaused := False\<rparr>),
                                CurrentStatus := StatusPlaying\<rparr>)
                      else p)
        in if 0 < length (SongQueue p1) \<and> CurrentStatus p1 = StatusResting
           then then_playing (Play 0 None p1 script)
           else Return p1)"

section \<open>Sequences of calls on one player\<close>

datatype operation =
    OpPlay int "Song option" "PlayEnv list"
  | OpPause
  | OpUnpause "PlayEnv list"
  | OpSkip "PlayEnv list"
  | OpStop bool bool
  | OpEnqueue Song
  | OpDequeue
  | OpClearQueue
  | OpSetVoiceConnection "discordgo_VoiceConnection option"
  | OpSetCurrentStatus PlaybackStatus

fun exec :: "operation \<Rightarrow> Player \<Rightarrow> outcome" where
  "exec (OpPlay startAt song script) p = Play startAt song p script"
| "exec OpPause p = Return (Pause p)"
| "exec (OpUnpause script) p = Unpause p script"
| "exec (OpSkip script) p = Skip p script"
| "exec (OpStop speakingErr disconnectErr) p = Stop speakingErr disconnectErr p"
| "exec (OpEnqueue song) p = Return (Enqueue song p)"
| "exec OpDequeue p = Return (snd (Dequeue p))"
| "exec OpClearQueue p = Return (ClearQueue p)"
| "exec (OpSetVoiceConnection vc) p = Return (SetVoiceConnection vc p)"
| "exec (OpSetCurrentStatus status) p = Return (SetCurrentStatus status p)"

fun run :: "operation list \<Rightarrow> Player \<Rightarrow> outcome" where
  "run [] p = Return p"
| "run (x # xs) p = (case exec x p of Return q \<Rightarrow> run xs q | Halt h q \<Rightarrow> Halt h q)"

section \<open>Reading outcomes, and concrete players\<close>

fun returned :: "outcome \<Rightarrow> Player option" where
  "returned (Return q) = Some q"
| "returned (Halt h q) = None"

fun halted :: "outcome \<Rightarrow> halt option" where
  "halted (Return q) = None"
| "halted (Halt h q) = Some h"

text \<open>The state a call ends in, whether it returns or not.\<close>

fun final :: "outcome \<Rightarrow> Player" where
  "final (Return q) = q"
| "final (Halt h q) = q"

definition a_song :: "string \<Rightarrow> SongSource \<Rightarrow> Song" where
  "a_song name src =
     \<lparr>Title = name, UserURL = ''https://example.org/watch?v='' @ name,
      DownloadURL = ''https://example.org/media/'' @ name,
      Thumbnail = \<lparr>URL = [], Width = 0, Height = 0\<rparr>,
      Duration = 180 * Second, ID = name, Source = src\<rparr>"

definition a_connection :: discordgo_VoiceConnection where
  "a_connection = \<lparr>GuildID = ''guild'', Ready = True\<rparr>"

text \<open>A player in the middle of a song: connected, streaming, nothing queued.\<close>

definition playing_player :: "Song \<Rightarrow> Player" where
  "playing_player song =
     NewPlayer\<lparr>VoiceConnection := Some a_connection,
       StreamingSession := Some \<lparr>IsPaused = False\<rparr>,
       EncodingSession := Some \<lparr>Path = DownloadURL song, StartTime = 0\<rparr>,
       CurrentSong := Some song,
       CurrentStatus := StatusPlaying\<rparr>"

text \<open>An environment in which nothing fails and the stream runs to its \<open>done\<close> signal.\<close>

definition calm :: PlayEnv where
  "calm = \<lparr>env_config_err = False, env_config_nil = False, env_encode_err = False, env_speaking_err = False,
     env_meanwhile = [], env_done = True, env_select_done = True,
     env_encoded = 0, env_position = 0, env_url_duration = 0,
     env_count_err = ErrNil, env_stop_speaking_err = False, env_disconnect_err = False\<rparr>"

text \<open>
  The interruption of the specification's example: the encode session was opened at
  second 10, 41 seconds are encoded and 30 seconds played when the stream ends, and the
  \<open>duration\<close> parameter of the download URL parses to 180.
\<close>

definition interrupted :: Player where
  "interrupted = (playing_player (a_song ''a'' SourceYouTube))
     \<lparr>EncodingSession := Some \<lparr>Path = ''https://example.org/media/a'', StartTime = 10\<rparr>\<rparr>"


text \<open>
  A player with a song playing and two songs queued, and an environment in which the
  stream has not finished when the \<open>select\<close> is reached.
\<close>

definition skipped_twice :: Player where
  "skipped_twice = Enqueue (a_song ''c'' SourceYouTube)
     (Enqueue (a_song ''b'' SourceYouTube) (playing_player (a_song ''a'' SourceYouTube)))"

definition still_streaming :: PlayEnv where
  "still_streaming = calm\<lparr>env_done := False\<rparr>"

section \<open>Unfolding the model\<close>

lemmas model_defs = NewPlayer_def Enqueue_def Dequeue_def ClearQueue_def SetVoiceConnection_def
  SetCurrentStatus_def Stop_def Pause_def Play_load_def Play_skip_def emit_def a_song_def
  a_connection_def playing_player_def calm_def send_skip_def Skip_def Skip_active_def Unpause_def
  metrics_def int64_def whole_seconds_def Second_def Let_def


section \<open>The skip signal is never sent by Play\<close>

text \<open>
  \<open>Play\<close> only ever receives from \<open>SkipInterrupt\<close>. The three parts of \<open>Play\<close>
  are taken one at a time, each under the assumption about the calls it makes, and put
  together by induction on the script.
\<close>

lemma SkipInterrupt_emit: "SkipInterrupt (emit es p) = SkipInterrupt p"
  by (simp add: emit_def)

lemma SkipInterrupt_deferred:
  "SkipInterrupt (final (deferred es r)) = SkipInterrupt (final r)"
  by (induction es r rule: deferred.induct) (simp_all add: emit_def)

lemma SkipInterrupt_concurrently:
  "SkipInterrupt (concurrently c p) = SkipInterrupt p"
  by (cases c)
     (simp_all add: Pause_def Enqueue_def ClearQueue_def SetCurrentStatus_def
        SetVoiceConnection_def emit_def split: option.splits)

lemma SkipInterrupt_fold_concurrently:
  "SkipInterrupt (fold concurrently cs p) = SkipInterrupt p"
  by (induction cs arbitrary: p) (simp_all add: SkipInterrupt_concurrently)

lemma SkipInterrupt_Stop:
  "SkipInterrupt (final (Stop a b p)) = SkipInterrupt p"
  by (simp add: Stop_def ClearQueue_def SetVoiceConnection_def emit_def Let_def)

lemma SkipInterrupt_Play_skip:
  "length (SkipInterrupt p) \<le> n \<Longrightarrow> length (SkipInterrupt (final (Play_skip p))) \<le> n"
  by (auto simp add: Play_skip_def emit_def Let_def split: option.splits)

lemma SkipInterrupt_Play_load:
  "Play_load song p = Inl q \<Longrightarrow> SkipInterrupt q = SkipInterrupt p"
  "Play_load song p = Inr q \<Longrightarrow> SkipInterrupt q = SkipInterrupt p"
  by (auto simp add: Play_load_def Dequeue_def Let_def split: option.splits list.splits if_splits)

lemma Play_finished_keeps_slot:
  assumes "\<And>a s q. length (SkipInterrupt q) \<le> n \<Longrightarrow>
             length (SkipInterrupt (final (Play a s q es))) \<le> n"
    and "length (SkipInterrupt p) \<le> n"
  shows "length (SkipInterrupt (final (Play_finished err p e es))) \<le> n"
  using assms
  by (simp add: SkipInterrupt_Stop SkipInterrupt_emit Let_def emit_def split: option.splits
      del: Play.simps)

lemma Play_done_keeps_slot:
  assumes play: "\<And>a s q. length (SkipInterrupt q) \<le> n \<Longrightarrow>
             length (SkipInterrupt (final (Play a s q es))) \<le> n"
    and p: "length (SkipInterrupt p) \<le> n"
  shows "length (SkipInterrupt (final (Play_done p e es))) \<le> n"
proof -
  have fin: "\<And>err q. length (SkipInterrupt q) \<le> n \<Longrightarrow>
      length (SkipInterrupt (final (Play_finished err q e es))) \<le> n"
    using play by (rule Play_finished_keeps_slot)
  show ?thesis
    using play fin p
    by (simp add: SkipInterrupt_emit Let_def split: option.splits prod.splits
        del: Play.simps Play_finished.simps)
qed

lemma Play_step_keeps_slot:
  assumes dn: "\<And>q. length (SkipInterrupt q) \<le> n \<Longrightarrow>
             length (SkipInterrupt (final (Play_done q e es))) \<le> n"
    and p: "length (SkipInterrupt p) \<le> n"
  shows "length (SkipInterrupt (final (Play a s p (e # es)))) \<le> n"
proof (cases "Play_load s p")
  case (Inl q)
  with p show ?thesis by (simp add: SkipInterrupt_Play_load)
next
  case (Inr p1)
  with p have p1: "length (SkipInterrupt p1) \<le> n" by (simp add: SkipInterrupt_Play_load)
  show ?thesis
    using Inr p1 dn SkipInterrupt_Play_skip
    by (simp add: SkipInterrupt_emit SkipInterrupt_deferred SkipInterrupt_fold_concurrently
        Let_def split: option.splits del: Play_done.simps)
qed

lemma Play_keeps_slot:
  "length (SkipInterrupt p) \<le> n \<Longrightarrow> length (SkipInterrupt (final (Play a s p script))) \<le> n"
proof (induction script arbitrary: a s p)
  case Nil
  then show ?case
    by (auto simp add: SkipInterrupt_Play_load split: sum.splits)
next
  case (Cons e es)
  show ?case
  proof (rule Play_step_keeps_slot)
    fix q :: Player assume "length (SkipInterrupt q) \<le> n"
    then show "length (SkipInterrupt (final (Play_done q e es))) \<le> n"
      using Cons.IH by (rule Play_done_keeps_slot [rotated])
  qed (rule Cons.prems)
qed


lemma SkipInterrupt_then_playing:
  "SkipInterrupt (final (then_playing r)) = SkipInterrupt (final r)"
  by (cases r) simp_all

lemma Skip_keeps_slot:
  "length (SkipInterrupt p) \<le> 1 \<Longrightarrow> length (SkipInterrupt (final (Skip p script))) \<le> 1"
  by (auto simp add: Skip_def Skip_active_def send_skip_def SkipInterrupt_then_playing Let_def
      SkipInterrupt_emit
      intro!: Play_keeps_slot split: PlaybackStatus.splits option.splits)

lemma Unpause_keeps_slot:
  "length (SkipInterrupt p) \<le> 1 \<Longrightarrow> length (SkipInterrupt (final (Unpause p script))) \<le> 1"
  by (auto simp add: Unpause_def SkipInterrupt_then_playing Let_def emit_def
      intro!: Play_keeps_slot split: option.splits)

lemma exec_keeps_slot:
  "length (SkipInterrupt p) \<le> 1 \<Longrightarrow> length (SkipInterrupt (final (exec x p))) \<le> 1"
  using Skip_keeps_slot [of p] Unpause_keeps_slot [of p]
  by (cases x)
     (simp_all add: Play_keeps_slot SkipInterrupt_Stop
        Pause_def Enqueue_def Dequeue_def ClearQueue_def SetVoiceConnection_def
        SetCurrentStatus_def emit_def split: option.splits list.splits)

lemma run_keeps_slot:
  "length (SkipInterrupt p) \<le> 1 \<Longrightarrow> length (SkipInterrupt (final (run ops p))) \<le> 1"
proof (induction ops arbitrary: p)
  case Nil
  then show ?case by simp
next
  case (Cons x xs)
  from Cons.prems have e: "length (SkipInterrupt (final (exec x p))) \<le> 1"
    by (rule exec_keeps_slot)
  show ?case
  proof (cases "exec x p")
    case (Return q)
    with e have "length (SkipInterrupt q) \<le> 1" by simp
    then have "length (SkipInterrupt (final (run xs q))) \<le> 1" by (rule Cons.IH)
    with Return show ?thesis by simp
  next
    case (Halt h q)
    with e show ?thesis by simp
  qed
qed

section \<open>The queue\<close>

text \<open>
  Claim C9. The queue is first in, first out. \<open>Enqueue\<close> puts the song behind all the
  songs already queued and leaves their order alone. After \<open>a\<close>, \<open>b\<close>, \<open>c\<close> are
  enqueued on an empty queue, four calls of \<open>Dequeue\<close> return \<open>a\<close>, \<open>b\<close>, \<open>c\<close>
  and then nothing, and the queue is empty at the end. \<open>Dequeue\<close> on an empty queue
  returns nothing and changes nothing.
\<close>

theorem queue_fifo:
  "SongQueue (Enqueue song p) = SongQueue p @ [song] \<and>
   (SongQueue p = [] \<longrightarrow>
     (let (r1, p1) = Dequeue (Enqueue c (Enqueue b (Enqueue a p)));
          (r2, p2) = Dequeue p1;
          (r3, p3) = Dequeue p2;
          (r4, p4) = Dequeue p3
      in r1 = Some a \<and> r2 = Some b \<and> r3 = Some c \<and> r4 = None \<and> SongQueue p4 = [])) \<and>
   (SongQueue p = [] \<longrightarrow> Dequeue p = (None, p))"
  by (simp add: Enqueue_def Dequeue_def)

theorem queue_fifo_witness:
  "SongQueue NewPlayer = [] \<and>
   (let (r1, p1) = Dequeue (Enqueue (a_song ''c'' SourceYouTube)
                     (Enqueue (a_song ''b'' SourceYouTube)
                       (Enqueue (a_song ''a'' SourceYouTube) NewPlayer)));
        (r2, p2) = Dequeue p1;
        (r3, p3) = Dequeue p2;
        (r4, p4) = Dequeue p3
    in r1 = Some (a_song ''a'' SourceYouTube) \<and> r2 = Some (a_song ''b'' SourceYouTube)
       \<and> r3 = Some (a_song ''c'' SourceYouTube) \<and> r4 = None \<and> SongQueue p4 = []) \<and>
   Dequeue NewPlayer = (None, NewPlayer)"
  using queue_fifo [of "a_song ''a'' SourceYouTube" NewPlayer "a_song ''c'' SourceYouTube"
      "a_song ''b'' SourceYouTube" "a_song ''a'' SourceYouTube"]
  by (simp add: NewPlayer_def)

text \<open>
  Claim C10. \<open>ClearQueue\<close> changes the song queue and nothing else: the current song,
  the status, the voice connection, the skip signal, the encode and stream sessions and
  the calls made to the outside are as before, the queue is empty afterwards, and on an
  empty queue the player is left exactly as it was.
\<close>

theorem ClearQueue_frame:
  "ClearQueue p = p\<lparr>SongQueue := []\<rparr> \<and>
   SongQueue (ClearQueue p) = [] \<and>
   CurrentSong (ClearQueue p) = CurrentSong p \<and>
   CurrentStatus (ClearQueue p) = CurrentStatus p \<and>
   VoiceConnection (ClearQueue p) = VoiceConnection p \<and>
   SkipInterrupt (ClearQueue p) = SkipInterrupt p \<and>
   EncodingSession (ClearQueue p) = EncodingSession p \<and>
   StreamingSession (ClearQueue p) = StreamingSession p \<and>
   Trace (ClearQueue p) = Trace p \<and>
   (SongQueue p = [] \<longrightarrow> ClearQueue p = p)"
  by (simp add: ClearQueue_def)

theorem ClearQueue_frame_witness:
  "SongQueue NewPlayer = [] \<and> ClearQueue NewPlayer = NewPlayer \<and>
   CurrentSong (ClearQueue (Enqueue (a_song ''b'' SourceYouTube)
       (playing_player (a_song ''a'' SourceYouTube))))
     = Some (a_song ''a'' SourceYouTube)"
  using ClearQueue_frame [of NewPlayer]
    ClearQueue_frame [of "Enqueue (a_song ''b'' SourceYouTube)
       (playing_player (a_song ''a'' SourceYouTube))"]
  by (simp add: NewPlayer_def playing_player_def Enqueue_def)

section \<open>Stop\<close>

text \<open>
  Claim C1, as the code has it. From every state and whatever the transport reports,
  \<open>Stop\<close> returns, with status \<open>Resting\<close>, an empty queue, no current song, no
  voice connection and no streaming session. On a connection that was there it calls
  \<open>Speaking(false)\<close> and \<open>Disconnect()\<close>; an error of either is logged and changes
  nothing else, and nothing in \<open>Stop\<close> can panic. An encode session that was there is
  stopped and cleaned up and stays in its field.
\<close>

theorem Stop_reaches_resting:
  "(case Stop speakingErr disconnectErr p of
      Return q \<Rightarrow>
        CurrentStatus q = StatusResting \<and> SongQueue q = [] \<and> CurrentSong q = None \<and>
        VoiceConnection q = None \<and> StreamingSession q = None \<and>
        EncodingSession q = EncodingSession p \<and>
        SkipInterrupt q = SkipInterrupt p \<and>
        Trace q = Trace p @
          (if VoiceConnection p = None then []
           else [Speaking False] @ (if speakingErr then [LogError] else []) @ [Disconnect] @
                (if disconnectErr then [LogFatal] else [])) @
          (if EncodingSession p = None then [] else [EncoderStop, Cleanup])
    | Halt h q \<Rightarrow> False)"
  by (simp add: Stop_def ClearQueue_def emit_def SetVoiceConnection_def Let_def)

theorem Stop_reaches_resting_witness:
  "(case Stop True True (playing_player (a_song ''a'' SourceYouTube)) of
      Return q \<Rightarrow> CurrentStatus q = StatusResting \<and> SongQueue q = [] \<and> CurrentSong q = None \<and>
        VoiceConnection q = None \<and> StreamingSession q = None \<and>
        Trace q = [Speaking False, LogError, Disconnect, LogFatal, EncoderStop, Cleanup]
    | Halt h q \<Rightarrow> False)"
  using Stop_reaches_resting [where speakingErr = True and disconnectErr = True
      and p = "playing_player (a_song ''a'' SourceYouTube)"]
  by (auto simp add: playing_player_def NewPlayer_def split: outcome.splits)

text \<open>
  The claim as the specification words it fails for the encode handle: after \<open>Stop\<close>
  on a playing player the encode session is still in its field.
\<close>

theorem Stop_encode_session_counterexample:
  "map_option EncodingSession (returned (Stop False False (playing_player (a_song ''a'' SourceYouTube))))
     = Some (Some \<lparr>Path = ''https://example.org/media/a'', StartTime = 0\<rparr>)"
  by (simp add: Stop_def ClearQueue_def emit_def SetVoiceConnection_def Let_def
      playing_player_def NewPlayer_def a_song_def)

section \<open>Completion of a live stream\<close>





section \<open>Resuming an interrupted song\<close>



section \<open>A completion that is not a resume\<close>

text \<open>
  Claim C8. When the stream of a song that is not a live stream completes and the
  computed song position is zero or negative, or no duration has been encoded, \<open>Play\<close>
  is not called again with the computed offset: the play count is recorded and lines 425
  to 452 follow. Where the history call reports no error these stop the player on an
  empty queue and otherwise call \<open>Play(0, nil)\<close> for the next queued song.
\<close>

theorem no_resume_without_position:
  "CurrentSong p = Some cur \<and> Source cur \<noteq> SourceStream \<and> VoiceConnection p = Some vc \<and>
   StreamingSession p = Some ss \<and> EncodingSession p = Some enc \<and>
   (snd (metrics enc ss cur e) \<le> 0 \<or> env_encoded e \<le> 0) \<longrightarrow>
     Play_done p e es =
       Play_finished (env_count_err e)
         (emit ([AddPlaybackCountStats (GuildID vc) (ID cur)] @
                (if env_count_err e \<noteq> ErrNil then [LogWarn] else [])) p) e es \<and>
     (env_count_err e = ErrNil \<longrightarrow>
        Play_done p e es =
          (if SongQueue p = []
           then Stop (env_stop_speaking_err e) (env_disconnect_err e)
                  (emit [AddPlaybackCountStats (GuildID vc) (ID cur)] p)
           else Play 0 None (emit [AddPlaybackCountStats (GuildID vc) (ID cur)] p) es))"
  by (auto simp add: Let_def emit_def split: prod.splits)

theorem no_resume_without_position_witness:
  "Source (a_song ''a'' SourceYouTube) \<noteq> SourceStream \<and> env_encoded calm \<le> 0 \<and>
   Play_done (playing_player (a_song ''a'' SourceYouTube)) calm [] =
     Play_finished ErrNil
       (emit [AddPlaybackCountStats ''guild'' ''a''] (playing_player (a_song ''a'' SourceYouTube)))
       calm [] \<and>
   Play_done (playing_player (a_song ''a'' SourceYouTube)) calm [] =
     Stop False False
       (emit [AddPlaybackCountStats ''guild'' ''a''] (playing_player (a_song ''a'' SourceYouTube)))"
proof -
  let ?a = "a_song ''a'' SourceYouTube"
  have s: "Source ?a \<noteq> SourceStream" "ID ?a = ''a''"
    by (simp_all add: a_song_def)
  have g: "GuildID a_connection = ''guild''" by (simp add: a_connection_def)
  have pp: "CurrentSong (playing_player ?a) = Some ?a"
    "VoiceConnection (playing_player ?a) = Some a_connection"
    "StreamingSession (playing_player ?a) = Some \<lparr>IsPaused = False\<rparr>"
    "EncodingSession (playing_player ?a) = Some \<lparr>Path = DownloadURL ?a, StartTime = 0\<rparr>"
    "SongQueue (playing_player ?a) = []"
    by (simp_all add: playing_player_def NewPlayer_def)
  have c: "env_count_err calm = ErrNil" "env_encoded calm \<le> 0"
    "\<not> env_stop_speaking_err calm" "\<not> env_disconnect_err calm"
    by (simp_all add: calm_def)
  have r: "Play_done (playing_player ?a) calm [] =
       Play_finished ErrNil (emit [AddPlaybackCountStats ''guild'' ''a''] (playing_player ?a)) calm [] \<and>
     Play_done (playing_player ?a) calm [] =
       Stop False False (emit [AddPlaybackCountStats ''guild'' ''a''] (playing_player ?a))"
    using no_resume_without_position [of "playing_player ?a" ?a a_connection
        "\<lparr>IsPaused = False\<rparr>" "\<lparr>Path = DownloadURL ?a, StartTime = 0\<rparr>" calm "[]"]
    by (simp add: s g pp c del: Play.simps Play_done.simps Play_finished.simps) metis
  from s(1) c(2) r show ?thesis by blast
qed

section \<open>A failed start\<close>

text \<open>
  Claim C6, as the code has it. When \<open>dca.EncodeFile\<close> fails, or \<open>Speaking(true)\<close>
  fails on a ready connection, \<open>Play\<close> logs the error and returns. The status, the
  voice connection, the streaming session and the skip signal are as before, so there is
  no transition to \<open>Playing\<close>, and no stream is created and no history entry written.
  A song taken from the queue is not put back: called without a song, \<open>Play\<close> leaves
  the head of the queue as current song and the rest as queue; called with a song it
  leaves both alone.
\<close>

theorem failed_open:
  "(song = None \<longrightarrow> SongQueue p \<noteq> []) \<and> (song \<noteq> None \<longrightarrow> CurrentSong p \<noteq> None) \<and>
   \<not> env_config_err e \<and>
   (env_encode_err e \<or> (VoiceConnection p = Some vc \<and> Ready vc \<and> env_speaking_err e)) \<longrightarrow>
   (case Play startAt song p (e # es) of
      Return q \<Rightarrow>
        CurrentStatus q = CurrentStatus p \<and> StreamingSession q = StreamingSession p \<and>
        VoiceConnection q = VoiceConnection p \<and> SkipInterrupt q = SkipInterrupt p \<and>
        CurrentSong q = (if song = None then Some (hd (SongQueue p)) else CurrentSong p) \<and>
        SongQueue q = (if song = None then tl (SongQueue p) else SongQueue p) \<and>
        (\<exists>cur. CurrentSong q = Some cur \<and>
          Trace q = Trace p @
            (if env_encode_err e then [EncodeFile (DownloadURL cur) startAt, LogError]
             else [EncodeFile (DownloadURL cur) startAt, Speaking True, LogError,
                   Speaking False, Cleanup]))
    | Halt h q \<Rightarrow> False)"
  by (cases song; cases "SongQueue p")
     (auto simp add: Play_load_def Dequeue_def emit_def Let_def split: option.splits)

theorem failed_open_witness:
  "SongQueue (Enqueue (a_song ''a'' SourceYouTube) NewPlayer) \<noteq> [] \<and>
   env_encode_err (calm\<lparr>env_encode_err := True\<rparr>) \<and>
   (case Play 0 None (Enqueue (a_song ''a'' SourceYouTube) NewPlayer)
           [calm\<lparr>env_encode_err := True\<rparr>] of
      Return q \<Rightarrow> CurrentStatus q = StatusResting \<and> CurrentSong q = Some (a_song ''a'' SourceYouTube)
        \<and> SongQueue q = [] \<and> Trace q = [EncodeFile ''https://example.org/media/a'' 0, LogError]
    | Halt h q \<Rightarrow> False) \<and>
   CurrentSong interrupted \<noteq> None \<and> env_speaking_err (calm\<lparr>env_speaking_err := True\<rparr>) \<and>
   (case Play 51 (CurrentSong interrupted) interrupted [calm\<lparr>env_speaking_err := True\<rparr>] of
      Return q \<Rightarrow> CurrentStatus q = StatusPlaying \<and> CurrentSong q = CurrentSong interrupted
        \<and> SongQueue q = SongQueue interrupted
        \<and> Trace q = [EncodeFile ''https://example.org/media/a'' 51, Speaking True, LogError,
                   Speaking False, Cleanup]
    | Halt h q \<Rightarrow> False)"
proof -
  let ?a = "a_song ''a'' SourceYouTube"
  have q: "SongQueue (Enqueue ?a NewPlayer) = [?a]" "CurrentStatus (Enqueue ?a NewPlayer) = StatusResting"
    "Trace (Enqueue ?a NewPlayer) = []"
    by (simp_all add: Enqueue_def NewPlayer_def)
  have i: "CurrentSong interrupted = Some ?a" "VoiceConnection interrupted = Some a_connection"
    "CurrentStatus interrupted = StatusPlaying" "Trace interrupted = []" "Ready a_connection"
    by (simp_all add: interrupted_def playing_player_def NewPlayer_def a_connection_def)
  have u: "DownloadURL ?a = ''https://example.org/media/a''" by (simp add: a_song_def)
  have c: "\<not> env_config_err (calm\<lparr>env_encode_err := True\<rparr>)"
    "\<not> env_config_err (calm\<lparr>env_speaking_err := True\<rparr>)"
    "\<not> env_encode_err (calm\<lparr>env_speaking_err := True\<rparr>)"
    by (simp_all add: calm_def)
  show ?thesis
    using failed_open [of None "Enqueue ?a NewPlayer" "calm\<lparr>env_encode_err := True\<rparr>"
        a_connection 0 "[]"]
      failed_open [of "CurrentSong interrupted" interrupted "calm\<lparr>env_speaking_err := True\<rparr>"
        a_connection 51 "[]"]
    by (auto simp add: q i u c split: outcome.splits)
qed

text \<open>
  The claim as the specification words it fails for the queue and the current song: with
  one song queued and nothing current, a failing \<open>dca.EncodeFile\<close> leaves the queue
  empty and that song current.
\<close>

theorem failed_open_counterexample:
  "SongQueue (Enqueue (a_song ''a'' SourceYouTube) NewPlayer) = [a_song ''a'' SourceYouTube] \<and>
   CurrentSong (Enqueue (a_song ''a'' SourceYouTube) NewPlayer) = None \<and>
   map_option SongQueue (returned (Play 0 None (Enqueue (a_song ''a'' SourceYouTube) NewPlayer)
     [calm\<lparr>env_encode_err := True\<rparr>])) = Some [] \<and>
   map_option CurrentSong (returned (Play 0 None (Enqueue (a_song ''a'' SourceYouTube) NewPlayer)
     [calm\<lparr>env_encode_err := True\<rparr>])) = Some (Some (a_song ''a'' SourceYouTube))"
  by (simp add: model_defs)

section \<open>Skip on an idle player\<close>

text \<open>
  Claim C7 at the new player, where nothing is current, nothing is queued and no skip
  signal is pending: \<open>Skip\<close> sends a skip signal, which stays pending, and sets the
  status to \<open>Playing\<close> after \<open>Play(0, nil)\<close> has found the queue empty and set it
  to \<open>Resting\<close>. The current song, the queue, the sessions and the calls made to the
  outside are as before.
\<close>

theorem Skip_idle_player:
  "Skip NewPlayer script =
     Return (NewPlayer\<lparr>CurrentStatus := StatusPlaying, SkipInterrupt := [True]\<rparr>)"
  by (cases script) (simp_all add: model_defs)

section \<open>The skip signal\<close>

text \<open>
  Claim C5, as the code has it. In every state a sequence of calls on a new player ends
  in, at most one skip signal is pending. A \<open>Skip\<close> that finds a signal pending sends
  nothing, records no play count and starts no playback; it sets the status to
  \<open>Resting\<close> when the status was \<open>Playing\<close> or \<open>Paused\<close> with a voice
  connection and a current song, and changes nothing otherwise.
\<close>

theorem skip_signal_single_slot:
  "length (SkipInterrupt (final (run ops NewPlayer))) \<le> 1 \<and>
   (SkipInterrupt p \<noteq> [] \<longrightarrow>
      Skip p script =
        Return (if (CurrentStatus p = StatusPlaying \<or> CurrentStatus p = StatusPaused)
                   \<and> VoiceConnection p \<noteq> None \<and> CurrentSong p \<noteq> None
                then p\<lparr>CurrentStatus := StatusResting\<rparr> else p))"
proof
  show "length (SkipInterrupt (final (run ops NewPlayer))) \<le> 1"
    by (rule run_keeps_slot) (simp add: NewPlayer_def)
  show "SkipInterrupt p \<noteq> [] \<longrightarrow>
      Skip p script =
        Return (if (CurrentStatus p = StatusPlaying \<or> CurrentStatus p = StatusPaused)
                   \<and> VoiceConnection p \<noteq> None \<and> CurrentSong p \<noteq> None
                then p\<lparr>CurrentStatus := StatusResting\<rparr> else p)"
    by (auto simp add: Skip_def Skip_active_def split: PlaybackStatus.splits option.splits)
qed

theorem skip_signal_single_slot_witness:
  "SkipInterrupt (send_skip (playing_player (a_song ''a'' SourceYouTube))) \<noteq> [] \<and>
   Skip (send_skip (playing_player (a_song ''a'' SourceYouTube))) [calm] =
     Return ((send_skip (playing_player (a_song ''a'' SourceYouTube)))
               \<lparr>CurrentStatus := StatusResting\<rparr>) \<and>
   Skip (send_skip (Enqueue (a_song ''a'' SourceYouTube) NewPlayer)) [calm] =
     Return (send_skip (Enqueue (a_song ''a'' SourceYouTube) NewPlayer))"
  using skip_signal_single_slot [of "[]" "send_skip (playing_player (a_song ''a'' SourceYouTube))" "[calm]"]
    skip_signal_single_slot [of "[]" "send_skip (Enqueue (a_song ''a'' SourceYouTube) NewPlayer)" "[calm]"]
  by (simp add: send_skip_def playing_player_def NewPlayer_def Enqueue_def)

text \<open>
  The claim as the specification words it fails for two calls of \<open>Skip\<close> in a row on a
  playing song: here the \<open>Play\<close> started by the first call receives the signal, so
  the second call finds the channel empty, records a second play count, sends a second
  signal and advances again. From song \<open>a\<close> with \<open>b\<close> and \<open>c\<close>
  queued the player ends on \<open>c\<close>.
\<close>

theorem skip_twice_counterexample:
  "CurrentStatus skipped_twice = StatusPlaying \<and>
   map_option CurrentSong (returned (run [OpSkip [still_streaming]] skipped_twice))
     = Some (Some (a_song ''b'' SourceYouTube)) \<and>
   map_option CurrentSong
      (returned (run [OpSkip [still_streaming], OpSkip [still_streaming]] skipped_twice))
     = Some (Some (a_song ''c'' SourceYouTube)) \<and>
   map_option SongQueue
      (returned (run [OpSkip [still_streaming], OpSkip [still_streaming]] skipped_twice))
     = Some [] \<and>
   map_option Trace
      (returned (run [OpSkip [still_streaming], OpSkip [still_streaming]] skipped_twice))
     = Some [AddPlaybackCountStats ''guild'' ''a'',
        EncodeFile ''https://example.org/media/b'' 0, Speaking True,
        NewStream, AddTrackToHistory ''guild'' ''b'', Speaking False,
        Cleanup, Cleanup, AddPlaybackCountStats ''guild'' ''b'',
        EncodeFile ''https://example.org/media/c'' 0, Speaking True,
        NewStream, AddTrackToHistory ''guild'' ''c'', Speaking False,
        Cleanup, Cleanup]"
  by (simp add: skipped_twice_def still_streaming_def model_defs)

section \<open>Status and current song\<close>

text \<open>
  Claim C4, as the code has it. A new player is resting, has no current song and no
  encode session. \<open>Stop\<close>, from every state, and \<open>Play\<close> without a song on an
  empty queue leave the player resting with no current song; \<open>Stop\<close> leaves the
  encode session where it is. The equivalence is not kept in between.
\<close>

theorem status_and_song:
  "CurrentStatus NewPlayer = StatusResting \<and> CurrentSong NewPlayer = None \<and>
   EncodingSession NewPlayer = None \<and>
   (case Stop speakingErr disconnectErr p of
      Return q \<Rightarrow> CurrentStatus q = StatusResting \<and> CurrentSong q = None \<and>
        EncodingSession q = EncodingSession p
    | Halt h q \<Rightarrow> False) \<and>
   (SongQueue p = [] \<longrightarrow>
      Play startAt None p script =
        Return (p\<lparr>CurrentSong := None, CurrentStatus := StatusResting\<rparr>))"
  by (cases script)
     (simp_all add: NewPlayer_def Stop_def ClearQueue_def emit_def SetVoiceConnection_def Let_def
        Play_load_def Dequeue_def)

theorem status_and_song_witness:
  "(case Stop False True (playing_player (a_song ''a'' SourceYouTube)) of
      Return q \<Rightarrow> CurrentStatus q = StatusResting \<and> CurrentSong q = None \<and>
        EncodingSession q = EncodingSession (playing_player (a_song ''a'' SourceYouTube))
    | Halt h q \<Rightarrow> False) \<and>
   SongQueue (playing_player (a_song ''a'' SourceYouTube)) = [] \<and>
   Play 0 None (playing_player (a_song ''a'' SourceYouTube)) [calm] =
     Return ((playing_player (a_song ''a'' SourceYouTube))
               \<lparr>CurrentSong := None, CurrentStatus := StatusResting\<rparr>)"
  using status_and_song [where speakingErr = False and disconnectErr = True
      and p = "playing_player (a_song ''a'' SourceYouTube)" and startAt = 0 and script = "[calm]"]
  by (simp add: playing_player_def NewPlayer_def del: Play.simps)

text \<open>
  The claim as the specification words it fails after a failed start, which leaves the
  dequeued song current while the status is \<open>Resting\<close>, and after a song has played
  to its end, when \<open>Stop\<close> leaves the encode session in its field.
\<close>

theorem status_and_song_counterexample:
  "map_option CurrentStatus (returned (run [OpEnqueue (a_song ''a'' SourceYouTube),
        OpPlay 0 None [calm\<lparr>env_encode_err := True\<rparr>]] NewPlayer)) = Some StatusResting \<and>
   map_option CurrentSong (returned (run [OpEnqueue (a_song ''a'' SourceYouTube),
        OpPlay 0 None [calm\<lparr>env_encode_err := True\<rparr>]] NewPlayer))
     = Some (Some (a_song ''a'' SourceYouTube)) \<and>
   map_option CurrentStatus (returned (run [OpSetVoiceConnection (Some a_connection),
        OpEnqueue (a_song ''a'' SourceYouTube), OpPlay 0 None [calm]] NewPlayer))
     = Some StatusResting \<and>
   map_option EncodingSession (returned (run [OpSetVoiceConnection (Some a_connection),
        OpEnqueue (a_song ''a'' SourceYouTube), OpPlay 0 None [calm]] NewPlayer))
     = Some (Some \<lparr>Path = ''https://example.org/media/a'', StartTime = 0\<rparr>)"
  by (simp add: model_defs)

end
